theory Spec2Isabelle
  imports
    Complex_Main
    "HOL-Library.Char_ord"
    "HOL-Library.List_Lexorder"
    "HOL-Library.Product_Lexorder"
begin

section \<open>The workload store and the assignment policy of \<^verbatim>\<open>app.py\<close>\<close>

text \<open>
  The program keeps two SQLite tables, \<^verbatim>\<open>employees\<close> and \<^verbatim>\<open>tasks\<close>, behind the class
  \<^verbatim>\<open>DatabaseManager\<close>; the class \<^verbatim>\<open>TaskScheduler\<close> picks the employee who receives a new
  task. Every method opens a connection of its own, so what one call leaves to the next
  is the database file: the two tables, and the write lock when a call has left its
  connection open.

  Conventions of the embedding:
  \<^item> a table is the list of its rows in rowid order (an \<^verbatim>\<open>INSERT\<close> appends);
  \<^item> the SQL type \<^verbatim>\<open>REAL\<close> and Python's \<^verbatim>\<open>float\<close> are IEEE 754 binary64 numbers. A
    finite one is the real number it stands for, and an arithmetic operation is the
    exact operation followed by rounding to the nearest binary64 number, ties to even.
    Infinities (a result of magnitude \<open>2 ^ 1024\<close> or more) and NaN are outside the model.
    An argument that the program passes as a float is a real number here: what is
    proved for every real number holds for every float;
  \<^item> \<^verbatim>\<open>TEXT\<close> and \<^verbatim>\<open>str\<close> are \<^typ>\<open>string\<close>; the order on strings is the lexicographic
    one on characters, the order on tuples is the lexicographic one on components,
    as Python compares them;
  \<^item> \<^verbatim>\<open>CURRENT_TIMESTAMP\<close>, which SQLite reads from the clock, is an argument
    \<open>now\<close> of the one method that stores it into a row that is read back;
  \<^item> a method that writes returns a pair: what the call gave back (\<open>Inr\<close> its value,
    \<open>Inl\<close> the exception that left it) and the database file after the call.
\<close>

subsection \<open>Binary64 arithmetic\<close>

text \<open>The number of binary digits of a natural number.\<close>

fun bit_length :: "nat \<Rightarrow> nat" where
  "bit_length n = (if n = 0 then 0 else Suc (bit_length (n div 2)))"

text \<open>For \<open>x \<noteq> 0\<close>, the integer \<open>e\<close> with \<open>2 ^ e \<le> \<bar>x\<bar> < 2 ^ (e + 1)\<close>.\<close>

definition binary_exponent :: "real \<Rightarrow> int" where
  "binary_exponent x =
     (if 1 \<le> \<bar>x\<bar> then int (bit_length (nat \<lfloor>\<bar>x\<bar>\<rfloor>)) - 1
      else - int (bit_length (nat (\<lceil>1 / \<bar>x\<bar>\<rceil> - 1))))"

definition round_half_even :: "real \<Rightarrow> int" where
  "round_half_even x =
     (let n = \<lfloor>x\<rfloor>; f = x - of_int n
      in if f < 1 / 2 then n
         else if 1 / 2 < f then n + 1
         else if even n then n else n + 1)"

definition pow2 :: "int \<Rightarrow> real" where
  "pow2 k = (if 0 \<le> k then 2 ^ nat k else 1 / 2 ^ nat (- k))"

text \<open>
  Rounding to binary64: 53 significant binary digits, so the last digit of a number with
  exponent \<open>e\<close> is worth \<open>2 ^ (e - 52)\<close>, and never less than \<open>2 ^ (- 1074)\<close> (the
  subnormal numbers).
\<close>

definition double_round :: "real \<Rightarrow> real" where
  "double_round x =
     (if x = 0 then 0
      else let q = max (binary_exponent x - 52) (- 1074)
           in of_int (round_half_even (x / pow2 q)) * pow2 q)"

definition double_add :: "real \<Rightarrow> real \<Rightarrow> real" where
  "double_add x y = double_round (x + y)"

definition double_sub :: "real \<Rightarrow> real \<Rightarrow> real" where
  "double_sub x y = double_round (x - y)"

subsection \<open>Rows and the database file\<close>

text \<open>
  The columns of \<^verbatim>\<open>employees\<close> that some query reads (\<^verbatim>\<open>created_at\<close> of an employee
  is written by its default and never selected), and all columns of \<^verbatim>\<open>tasks\<close>.
\<close>

record employee =
  emp_id :: string
  current_workload :: real
  next_free_time :: real

record task =
  task_id :: string
  description :: string
  duration :: real
  assigned_to :: string
  created_at :: nat

text \<open>
  \<open>write_locked\<close>: a connection that an earlier call left open inside its write
  transaction still exists and holds the write lock of the file. While it does, no
  other connection can write; reading is not hindered.
\<close>

record database =
  employees :: "employee list"
  tasks :: "task list"
  write_locked :: bool

text \<open>
  The dictionary that \<^verbatim>\<open>get_all_employees\<close> builds for a row: the three columns and the
  two derived entries.
\<close>

record snapshot = employee +
  available_hours :: real
  is_available :: bool

datatype error = IntegrityError | OperationalError | IndexError

subsection \<open>\<^verbatim>\<open>init_database\<close> and \<^verbatim>\<open>DatabaseManager\<close>\<close>

text \<open>\<^verbatim>\<open>init_database\<close> on a new file: both tables exist and are empty.\<close>

definition init_database :: database where
  "init_database = \<lparr>employees = [], tasks = [], write_locked = False\<rparr>"

text \<open>
  \<^verbatim>\<open>add_employee\<close>. The \<^verbatim>\<open>INSERT\<close> begins a write transaction and takes the write lock.

  \<^item> When another connection holds the lock, \<^verbatim>\<open>execute\<close> raises
    \<^verbatim>\<open>sqlite3.OperationalError\<close> (database is locked). The method catches only
    \<^verbatim>\<open>IntegrityError\<close>, so this exception leaves it.
  \<^item> \<^verbatim>\<open>emp_id\<close> is the primary key: a second row with the key raises
    \<^verbatim>\<open>sqlite3.IntegrityError\<close>. The \<^verbatim>\<open>except\<close> branch answers \<^verbatim>\<open>False\<close> and, unlike the other
    branch, neither closes the connection nor rolls back: the tables are as they were,
    and the transaction stays open with the lock until the connection object is
    collected.
  \<^item> Otherwise the row is stored; the \<^verbatim>\<open>INSERT\<close> names only \<^verbatim>\<open>emp_id\<close>, so the two \<^verbatim>\<open>REAL\<close>
    columns take their default 0. The method commits, closes and answers \<^verbatim>\<open>True\<close>.
\<close>

definition add_employee :: "database \<Rightarrow> string \<Rightarrow> (error + bool) \<times> database" where
  "add_employee db e =
     (if write_locked db then (Inl OperationalError, db)
      else if e \<in> set (map emp_id (employees db))
      then (Inr False, db\<lparr>write_locked := True\<rparr>)
      else (Inr True,
            db\<lparr>employees := employees db @
                 [\<lparr>emp_id = e, current_workload = 0, next_free_time = 0\<rparr>]\<rparr>))"

text \<open>
  \<^verbatim>\<open>remove_employee\<close>: two \<^verbatim>\<open>DELETE\<close> statements, first the tasks of the employee, then
  the employee, then \<^verbatim>\<open>commit\<close> and \<^verbatim>\<open>close\<close>. A \<^verbatim>\<open>DELETE\<close> takes the write lock whether or
  not it matches a row; when another connection holds the lock, the first \<^verbatim>\<open>execute\<close>
  raises \<^verbatim>\<open>OperationalError\<close> and nothing is deleted. A \<^verbatim>\<open>DELETE\<close> that matches no row is
  not an error.
\<close>

definition remove_employee :: "database \<Rightarrow> string \<Rightarrow> (error + unit) \<times> database" where
  "remove_employee db e =
     (if write_locked db then (Inl OperationalError, db)
      else (Inr (),
            db\<lparr>tasks := filter (\<lambda>t. assigned_to t \<noteq> e) (tasks db),
               employees := filter (\<lambda>r. emp_id r \<noteq> e) (employees db)\<rparr>))"

text \<open>
  \<^verbatim>\<open>get_all_employees\<close>: one dictionary for each row, in the order of the rows.
  \<^verbatim>\<open>9 - row[1]\<close> is a subtraction of floats.
\<close>

definition snapshot_of :: "employee \<Rightarrow> snapshot" where
  "snapshot_of row =
     \<lparr>emp_id = emp_id row,
      current_workload = current_workload row,
      next_free_time = next_free_time row,
      available_hours = max 0 (double_sub 9 (current_workload row)),
      is_available = (current_workload row < 9)\<rparr>"

definition get_all_employees :: "database \<Rightarrow> snapshot list" where
  "get_all_employees db = map snapshot_of (employees db)"

text \<open>
  \<^verbatim>\<open>add_task\<close>: the \<^verbatim>\<open>INSERT\<close> into \<^verbatim>\<open>tasks\<close>, then the \<^verbatim>\<open>UPDATE\<close> of the employee.

  \<^item> When another connection holds the write lock, the \<^verbatim>\<open>INSERT\<close> raises
    \<^verbatim>\<open>OperationalError\<close>.
  \<^item> \<^verbatim>\<open>task_id\<close> is the primary key of \<^verbatim>\<open>tasks\<close>: a second row with the key raises
    \<^verbatim>\<open>sqlite3.IntegrityError\<close>. The method catches nothing, so it is left before the
    \<^verbatim>\<open>UPDATE\<close>, \<^verbatim>\<open>commit\<close> and \<^verbatim>\<open>close\<close>: the tables are as they were, and the open
    transaction keeps the lock.
  \<^item> The table declares \<^verbatim>\<open>FOREIGN KEY (assigned_to) REFERENCES employees (emp_id)\<close>, but
    SQLite enforces foreign keys only on a connection that has run
    \<^verbatim>\<open>PRAGMA foreign_keys = ON\<close>, and \<^verbatim>\<open>get_connection\<close> is a bare \<^verbatim>\<open>sqlite3.connect\<close>.
    So the \<^verbatim>\<open>INSERT\<close> does not look at \<^verbatim>\<open>employees\<close>.
  \<^item> Both right-hand sides of the \<^verbatim>\<open>SET\<close> clause read the row as it was before the
    \<^verbatim>\<open>UPDATE\<close>, and each is an addition of two \<^verbatim>\<open>REAL\<close> values. The \<^verbatim>\<open>WHERE\<close> clause may
    match no row, which is not an error.
\<close>

definition add_task ::
  "database \<Rightarrow> nat \<Rightarrow> string \<Rightarrow> string \<Rightarrow> real \<Rightarrow> string \<Rightarrow> (error + unit) \<times> database" where
  "add_task db now tid descr d e =
     (if write_locked db then (Inl OperationalError, db)
      else if tid \<in> set (map task_id (tasks db))
      then (Inl IntegrityError, db\<lparr>write_locked := True\<rparr>)
      else (Inr (),
        db\<lparr>tasks := tasks db @
               [\<lparr>task_id = tid, description = descr, duration = d,
                 assigned_to = e, created_at = now\<rparr>],
            employees :=
               map (\<lambda>r. if emp_id r = e
                         then r\<lparr>current_workload := double_add (current_workload r) d,
                                next_free_time := double_add (current_workload r) d\<rparr>
                         else r)
                   (employees db)\<rparr>))"

text \<open>
  \<^verbatim>\<open>get_all_tasks\<close>: all rows, \<^verbatim>\<open>ORDER BY created_at DESC\<close>. SQL leaves the order of rows
  with equal \<^verbatim>\<open>created_at\<close> open; the model keeps them in rowid order.
\<close>

definition get_all_tasks :: "database \<Rightarrow> task list" where
  "get_all_tasks db = rev (sort_key created_at (rev (tasks db)))"

text \<open>\<^verbatim>\<open>reset_all_data\<close>: two \<^verbatim>\<open>DELETE\<close> statements without a \<^verbatim>\<open>WHERE\<close> clause.\<close>

definition reset_all_data :: "database \<Rightarrow> (error + unit) \<times> database" where
  "reset_all_data db =
     (if write_locked db then (Inl OperationalError, db)
      else (Inr (), db\<lparr>tasks := [], employees := []\<rparr>))"

text \<open>
  Not a method of the program: the Python runtime collects the connection objects that
  earlier calls left open, which closes them and rolls their transactions back. When
  that happens is up to the runtime.
\<close>

definition collect_garbage :: "database \<Rightarrow> database" where
  "collect_garbage db = db\<lparr>write_locked := False\<rparr>"

subsection \<open>\<^verbatim>\<open>TaskScheduler\<close>\<close>

text \<open>Python's \<^verbatim>\<open>xs[0]\<close>, which raises \<^verbatim>\<open>IndexError\<close> on the empty list.\<close>

fun index0 :: "'a list \<Rightarrow> error + 'a" where
  "index0 [] = Inl IndexError"
| "index0 (x # xs) = Inr x"

text \<open>
  The body of \<^verbatim>\<open>find_best_employee\<close> from the test \<^verbatim>\<open>if not employees\<close> on, as a function of
  the list that \<^verbatim>\<open>get_all_employees\<close> returned. \<^verbatim>\<open>list.sort()\<close> on tuples is \<^const>\<open>sort\<close>
  in the lexicographic order of pairs: a list has one sorted arrangement in a linear
  order, whatever algorithm finds it. The method only reads, so a write lock does not
  stop it.
\<close>

definition find_best_employee_in :: "snapshot list \<Rightarrow> real \<Rightarrow> error + string option" where
  "find_best_employee_in emps task_duration =
     (if emps = [] then Inr None
      else
        let available_employees =
              map (\<lambda>emp. (current_workload emp, emp_id emp))
                (filter (\<lambda>emp. available_hours emp \<ge> task_duration) emps)
        in if available_employees \<noteq> []
           then map_sum id (\<lambda>p. Some (snd p)) (index0 (sort available_employees))
           else
             let next_free_times = map (\<lambda>emp. (next_free_time emp, emp_id emp)) emps
             in map_sum id (\<lambda>p. Some (snd p)) (index0 (sort next_free_times)))"

definition find_best_employee :: "database \<Rightarrow> real \<Rightarrow> error + string option" where
  "find_best_employee db task_duration =
     find_best_employee_in (get_all_employees db) task_duration"

subsection \<open>Sequences of calls\<close>

text \<open>
  The four writing methods of the store and the collection of left-open connections as
  a datatype of steps, and the database file after a step.
\<close>

datatype operation =
    AddEmployee string
  | AddTask nat string string real string
  | RemoveEmployee string
  | ResetAllData
  | CollectGarbage

fun apply_operation :: "database \<Rightarrow> operation \<Rightarrow> database" where
  "apply_operation db (AddEmployee e) = snd (add_employee db e)"
| "apply_operation db (AddTask now tid descr d e) = snd (add_task db now tid descr d e)"
| "apply_operation db (RemoveEmployee e) = snd (remove_employee db e)"
| "apply_operation db ResetAllData = snd (reset_all_data db)"
| "apply_operation db CollectGarbage = collect_garbage db"

text \<open>
  A sequence of steps in which every \<^verbatim>\<open>add_task\<close> names an employee who is in the table
  when the call is made.
\<close>

fun references_existing :: "database \<Rightarrow> operation \<Rightarrow> bool" where
  "references_existing db (AddTask now tid descr d e) = (e \<in> set (map emp_id (employees db)))"
| "references_existing db _ = True"

fun admissible :: "database \<Rightarrow> operation list \<Rightarrow> bool" where
  "admissible db [] = True"
| "admissible db (op # ops) =
     (references_existing db op \<and> admissible (apply_operation db op) ops)"

definition run :: "database \<Rightarrow> operation list \<Rightarrow> database" where
  "run db ops = foldl apply_operation db ops"

text \<open>
  The hours of the tasks that the table assigns to an employee id, added the way the
  \<^verbatim>\<open>UPDATE\<close> statements added them: from 0, one task after the other in the order of
  their insertion, each addition rounded.
\<close>

definition assigned_hours :: "database \<Rightarrow> string \<Rightarrow> real" where
  "assigned_hours db e =
     foldl double_add 0 (map duration (filter (\<lambda>t. assigned_to t = e) (tasks db)))"

definition workload_consistent :: "database \<Rightarrow> bool" where
  "workload_consistent db =
     (\<forall>r \<in> set (employees db). current_workload r = assigned_hours db (emp_id r))"

text \<open>
  The reading of the specification's sentence in which the sum is the sum of the real
  numbers: every workload is the exact sum of the durations.
\<close>

definition workload_is_exact_sum :: "database \<Rightarrow> bool" where
  "workload_is_exact_sum db =
     (\<forall>r \<in> set (employees db).
        current_workload r =
          sum_list (map duration (filter (\<lambda>t. assigned_to t = emp_id r) (tasks db))))"

definition tasks_reference_employees :: "database \<Rightarrow> bool" where
  "tasks_reference_employees db =
     (\<forall>t \<in> set (tasks db). assigned_to t \<in> set (map emp_id (employees db)))"

definition unique_emp_ids :: "database \<Rightarrow> bool" where
  "unique_emp_ids db = distinct (map emp_id (employees db))"

text \<open>
  The property that a sequence of steps keeps when each of its \<^verbatim>\<open>add_task\<close> names an
  employee of the table: the workloads agree with the tasks, and no task names an
  employee who is not in the table.
\<close>

definition store_invariant :: "database \<Rightarrow> bool" where
  "store_invariant db = (workload_consistent db \<and> tasks_reference_employees db)"

text \<open>The row of an employee id, as a \<^verbatim>\<open>SELECT ... WHERE emp_id = ?\<close> would read it.\<close>

definition employee_row :: "database \<Rightarrow> string \<Rightarrow> employee option" where
  "employee_row db e = find (\<lambda>r. emp_id r = e) (employees db)"

text \<open>
  The tuples that the first loop of \<^verbatim>\<open>find_best_employee\<close> collects, as a set: the
  employees into whose day the task still fits.
\<close>

definition fits :: "snapshot list \<Rightarrow> real \<Rightarrow> (real \<times> string) set" where
  "fits emps d =
     (\<lambda>emp. (current_workload emp, emp_id emp)) ` {emp \<in> set emps. available_hours emp \<ge> d}"

section \<open>The assignment policy\<close>

declare bit_length.simps [simp del]

lemmas double_defs =
  double_add_def double_sub_def double_round_def binary_exponent_def round_half_even_def
  pow2_def bit_length.simps

subsection \<open>The head of a sorted list is the least element\<close>

lemma index0_sort_Min:
  fixes xs :: "('a::linorder) list"
  assumes "xs \<noteq> []"
  shows "index0 (sort xs) = Inr (Min (set xs))"
proof -
  from assms have ne: "sort xs \<noteq> []"
    by (metis length_sort length_0_conv)
  then obtain m ms where ms: "sort xs = m # ms"
    by (cases "sort xs") auto
  have srt: "sorted (m # ms)" using ms sorted_sort [of xs] by simp
  have st: "set (m # ms) = set xs" using ms set_sort [of "\<lambda>x. x" xs] by simp
  have "Min (set xs) = m"
  proof (rule Min_eqI)
    show "finite (set xs)" by simp
    show "m \<in> set xs" using st by auto
    fix y assume "y \<in> set xs"
    then have "y \<in> set (m # ms)" using st by simp
    then show "m \<le> y" using srt by auto
  qed
  then show ?thesis by (simp add: ms)
qed

lemma find_best_employee_in_Min:
  assumes "emps \<noteq> []"
  shows "find_best_employee_in emps d =
           Inr (Some (snd (if fits emps d \<noteq> {} then Min (fits emps d)
                           else Min ((\<lambda>emp. (next_free_time emp, emp_id emp)) ` set emps))))"
proof -
  let ?av = "map (\<lambda>emp. (current_workload emp, emp_id emp))
                (filter (\<lambda>emp. available_hours emp \<ge> d) emps)"
  let ?nf = "map (\<lambda>emp. (next_free_time emp, emp_id emp)) emps"
  have sav: "set ?av = fits emps d" by (auto simp: fits_def)
  have snf: "set ?nf = (\<lambda>emp. (next_free_time emp, emp_id emp)) ` set emps" by simp
  have nfne: "?nf \<noteq> []" using assms by simp
  show ?thesis
  proof (cases "?av = []")
    case True
    then have "fits emps d = {}" using sav by (metis set_empty)
    moreover have "find_best_employee_in emps d =
        map_sum id (\<lambda>p. Some (snd p)) (index0 (sort ?nf))"
      using assms True by (simp add: find_best_employee_in_def)
    ultimately show ?thesis
      using index0_sort_Min [OF nfne] snf by simp
  next
    case False
    then have "fits emps d \<noteq> {}" using sav by (metis set_empty)
    moreover have "find_best_employee_in emps d =
        map_sum id (\<lambda>p. Some (snd p)) (index0 (sort ?av))"
      using assms False by (simp add: find_best_employee_in_def Let_def)
    ultimately show ?thesis
      using index0_sort_Min [OF False] sav by simp
  qed
qed

lemma fits_today:
  assumes "\<exists>emp \<in> set emps. available_hours emp \<ge> d"
  shows "\<exists>best \<in> set emps. available_hours best \<ge> d \<and>
           find_best_employee_in emps d = Inr (Some (emp_id best)) \<and>
           (\<forall>emp \<in> set emps. available_hours emp \<ge> d \<longrightarrow>
              (current_workload best, emp_id best) \<le> (current_workload emp, emp_id emp))"
proof -
  from assms have ne: "emps \<noteq> []" by auto
  from assms have fne: "fits emps d \<noteq> {}" by (auto simp: fits_def)
  have fin: "finite (fits emps d)" by (simp add: fits_def)
  have "Min (fits emps d) \<in> fits emps d" using fin fne by (rule Min_in)
  then obtain best where b: "best \<in> set emps" "available_hours best \<ge> d"
      "Min (fits emps d) = (current_workload best, emp_id best)"
    by (auto simp: fits_def)
  have res: "find_best_employee_in emps d = Inr (Some (emp_id best))"
    using find_best_employee_in_Min [OF ne, of d] fne b(3) by simp
  have "(current_workload best, emp_id best) \<le> (current_workload emp, emp_id emp)"
    if "emp \<in> set emps" "available_hours emp \<ge> d" for emp
  proof -
    have "(current_workload emp, emp_id emp) \<in> fits emps d"
      using that by (auto simp: fits_def)
    then have "Min (fits emps d) \<le> (current_workload emp, emp_id emp)"
      using fin by (rule Min_le [rotated])
    then show ?thesis using b(3) by simp
  qed
  with b res show ?thesis by blast
qed

lemma overflow:
  assumes "emps \<noteq> []" and "\<forall>emp \<in> set emps. \<not> available_hours emp \<ge> d"
  shows "\<exists>best \<in> set emps.
           find_best_employee_in emps d = Inr (Some (emp_id best)) \<and>
           (\<forall>emp \<in> set emps.
              (next_free_time best, emp_id best) \<le> (next_free_time emp, emp_id emp))"
proof -
  let ?N = "(\<lambda>emp. (next_free_time emp, emp_id emp)) ` set emps"
  have fe: "fits emps d = {}" using assms(2) by (auto simp: fits_def)
  have fin: "finite ?N" by simp
  have nne: "?N \<noteq> {}" using assms(1) by simp
  have "Min ?N \<in> ?N" using fin nne by (rule Min_in)
  then obtain best where b: "best \<in> set emps" "Min ?N = (next_free_time best, emp_id best)"
    by auto
  have res: "find_best_employee_in emps d = Inr (Some (emp_id best))"
    using find_best_employee_in_Min [OF assms(1), of d] fe b(2) by simp
  have "(next_free_time best, emp_id best) \<le> (next_free_time emp, emp_id emp)"
    if "emp \<in> set emps" for emp
  proof -
    have "(next_free_time emp, emp_id emp) \<in> ?N" using that by auto
    then have "Min ?N \<le> (next_free_time emp, emp_id emp)"
      using fin by (rule Min_le [rotated])
    then show ?thesis using b(2) by simp
  qed
  with b res show ?thesis by blast
qed

lemma fits_cong: "set emps1 = set emps2 \<Longrightarrow> fits emps1 d = fits emps2 d"
  by (simp add: fits_def)

lemma find_best_employee_in_set:
  assumes "set emps1 = set emps2"
  shows "find_best_employee_in emps1 d = find_best_employee_in emps2 d"
proof (cases "emps1 = []")
  case True
  then have "emps2 = []" using assms by (metis set_empty)
  with True show ?thesis by simp
next
  case False
  then have ne2: "emps2 \<noteq> []" using assms by (metis set_empty)
  show ?thesis
    using find_best_employee_in_Min [OF False, of d] find_best_employee_in_Min [OF ne2, of d]
      fits_cong [OF assms, of d] assms by simp
qed

subsection \<open>The two phases\<close>

text \<open>
  C3 (fits-today phase). If some employee of the snapshot list has
  \<open>available_hours \<ge> d\<close>, the policy returns, without raising, the id of an employee
  with \<open>available_hours \<ge> d\<close> whose pair \<open>(current_workload, id)\<close> is least among all
  employees with \<open>available_hours \<ge> d\<close>. With A at workload 2 and B at workload 5, in
  either row order, a task of 3 hours goes to A.
\<close>

theorem find_best_employee_fits_today:
  "((\<exists>emp \<in> set emps. available_hours emp \<ge> d) \<longrightarrow>
      (\<exists>best \<in> set emps. available_hours best \<ge> d \<and>
         find_best_employee_in emps d = Inr (Some (emp_id best)) \<and>
         (\<forall>emp \<in> set emps. available_hours emp \<ge> d \<longrightarrow>
            (current_workload best, emp_id best) \<le> (current_workload emp, emp_id emp))))
   \<and> find_best_employee
         \<lparr>employees = [\<lparr>emp_id = ''A'', current_workload = 2, next_free_time = nA\<rparr>,
                       \<lparr>emp_id = ''B'', current_workload = 5, next_free_time = nB\<rparr>],
          tasks = ts, write_locked = w\<rparr> 3 = Inr (Some ''A'')
   \<and> find_best_employee
         \<lparr>employees = [\<lparr>emp_id = ''B'', current_workload = 5, next_free_time = nB\<rparr>,
                       \<lparr>emp_id = ''A'', current_workload = 2, next_free_time = nA\<rparr>],
          tasks = ts, write_locked = w\<rparr> 3 = Inr (Some ''A'')"
proof (intro conjI impI)
  assume "\<exists>emp \<in> set emps. available_hours emp \<ge> d"
  then show "\<exists>best \<in> set emps. available_hours best \<ge> d \<and>
         find_best_employee_in emps d = Inr (Some (emp_id best)) \<and>
         (\<forall>emp \<in> set emps. available_hours emp \<ge> d \<longrightarrow>
            (current_workload best, emp_id best) \<le> (current_workload emp, emp_id emp))"
    by (rule fits_today)
next
  show "find_best_employee
         \<lparr>employees = [\<lparr>emp_id = ''A'', current_workload = 2, next_free_time = nA\<rparr>,
                       \<lparr>emp_id = ''B'', current_workload = 5, next_free_time = nB\<rparr>],
          tasks = ts, write_locked = w\<rparr> 3 = Inr (Some ''A'')"
    by (simp add: find_best_employee_def find_best_employee_in_def get_all_employees_def
        snapshot_of_def double_defs)
next
  show "find_best_employee
         \<lparr>employees = [\<lparr>emp_id = ''B'', current_workload = 5, next_free_time = nB\<rparr>,
                       \<lparr>emp_id = ''A'', current_workload = 2, next_free_time = nA\<rparr>],
          tasks = ts, write_locked = w\<rparr> 3 = Inr (Some ''A'')"
    by (simp add: find_best_employee_def find_best_employee_in_def get_all_employees_def
        snapshot_of_def double_defs)
qed

text \<open>
  The theorem at a list of three employees and a task of 4 hours: C at workload 6 has
  3 hours left and is passed over, A and B both fit with workload 1, and the tie goes
  to A.
\<close>

theorem find_best_employee_fits_today_witness:
  "(\<exists>emp \<in> set (map snapshot_of
        [\<lparr>emp_id = ''C'', current_workload = 6, next_free_time = 6\<rparr>,
         \<lparr>emp_id = ''B'', current_workload = 1, next_free_time = 1\<rparr>,
         \<lparr>emp_id = ''A'', current_workload = 1, next_free_time = 1\<rparr>]).
      available_hours emp \<ge> 4)
   \<and> (\<exists>best \<in> set (map snapshot_of
        [\<lparr>emp_id = ''C'', current_workload = 6, next_free_time = 6\<rparr>,
         \<lparr>emp_id = ''B'', current_workload = 1, next_free_time = 1\<rparr>,
         \<lparr>emp_id = ''A'', current_workload = 1, next_free_time = 1\<rparr>]).
        available_hours best \<ge> 4 \<and>
        find_best_employee_in (map snapshot_of
          [\<lparr>emp_id = ''C'', current_workload = 6, next_free_time = 6\<rparr>,
           \<lparr>emp_id = ''B'', current_workload = 1, next_free_time = 1\<rparr>,
           \<lparr>emp_id = ''A'', current_workload = 1, next_free_time = 1\<rparr>]) 4
          = Inr (Some (emp_id best)))
   \<and> find_best_employee_in (map snapshot_of
          [\<lparr>emp_id = ''C'', current_workload = 6, next_free_time = 6\<rparr>,
           \<lparr>emp_id = ''B'', current_workload = 1, next_free_time = 1\<rparr>,
           \<lparr>emp_id = ''A'', current_workload = 1, next_free_time = 1\<rparr>]) 4
          = Inr (Some ''A'')"
proof -
  let ?emps = "map snapshot_of
        [\<lparr>emp_id = ''C'', current_workload = 6, next_free_time = 6\<rparr>,
         \<lparr>emp_id = ''B'', current_workload = 1, next_free_time = 1\<rparr>,
         \<lparr>emp_id = ''A'', current_workload = 1, next_free_time = 1\<rparr>]"
  have h: "\<exists>emp \<in> set ?emps. available_hours emp \<ge> 4"
    by (simp add: snapshot_of_def double_defs)
  have r: "find_best_employee_in ?emps 4 = Inr (Some ''A'')"
    by (simp add: find_best_employee_in_def snapshot_of_def double_defs)
  from find_best_employee_fits_today [of ?emps 4] h
  have "\<exists>best \<in> set ?emps. available_hours best \<ge> 4 \<and>
        find_best_employee_in ?emps 4 = Inr (Some (emp_id best))"
    by blast
  with h r show ?thesis by blast
qed

text \<open>
  C4 (overflow phase). For a non-empty snapshot list in which no employee has
  \<open>available_hours \<ge> d\<close>, the policy returns, without raising, the id of an employee
  whose pair \<open>(next_free_time, id)\<close> is least among all employees. In particular, when
  every employee of a non-empty table is at workload 9 and \<open>d\<close> is positive, the
  policy returns the id of an employee of the table, least by \<open>(next_free_time, id)\<close>;
  when their \<open>next_free_time\<close> is 9 as well, that is the least id.
\<close>

theorem find_best_employee_overflow:
  "(emps \<noteq> [] \<and> (\<forall>emp \<in> set emps. \<not> available_hours emp \<ge> d) \<longrightarrow>
      (\<exists>best \<in> set emps.
         find_best_employee_in emps d = Inr (Some (emp_id best)) \<and>
         (\<forall>emp \<in> set emps.
            (next_free_time best, emp_id best) \<le> (next_free_time emp, emp_id emp))))
   \<and> (employees db \<noteq> [] \<and> (\<forall>r \<in> set (employees db). current_workload r = 9) \<and> 0 < d' \<longrightarrow>
      (\<exists>best \<in> set (employees db).
         find_best_employee db d' = Inr (Some (emp_id best)) \<and>
         (\<forall>r \<in> set (employees db).
            (next_free_time best, emp_id best) \<le> (next_free_time r, emp_id r)) \<and>
         ((\<forall>r \<in> set (employees db). next_free_time r = 9) \<longrightarrow>
            (\<forall>r \<in> set (employees db). emp_id best \<le> emp_id r))))"
proof (intro conjI impI)
  assume "emps \<noteq> [] \<and> (\<forall>emp \<in> set emps. \<not> available_hours emp \<ge> d)"
  then show "\<exists>best \<in> set emps.
         find_best_employee_in emps d = Inr (Some (emp_id best)) \<and>
         (\<forall>emp \<in> set emps.
            (next_free_time best, emp_id best) \<le> (next_free_time emp, emp_id emp))"
    using overflow [of emps d] by blast
next
  assume a: "employees db \<noteq> [] \<and> (\<forall>r \<in> set (employees db). current_workload r = 9) \<and> 0 < d'"
  let ?emps = "get_all_employees db"
  have ne: "?emps \<noteq> []" using a by (simp add: get_all_employees_def)
  have full: "\<forall>emp \<in> set ?emps. \<not> available_hours emp \<ge> d'"
    using a by (auto simp: get_all_employees_def snapshot_of_def double_sub_def double_round_def)
  from overflow [OF ne full] obtain b where b: "b \<in> set ?emps"
      "find_best_employee_in ?emps d' = Inr (Some (emp_id b))"
      "\<forall>emp \<in> set ?emps. (next_free_time b, emp_id b) \<le> (next_free_time emp, emp_id emp)"
    by blast
  from b(1) obtain best where best: "best \<in> set (employees db)" "b = snapshot_of best"
    by (auto simp: get_all_employees_def)
  have ids: "emp_id b = emp_id best" "next_free_time b = next_free_time best"
    using best(2) by (simp_all add: snapshot_of_def)
  have res: "find_best_employee db d' = Inr (Some (emp_id best))"
    using b(2) ids by (simp add: find_best_employee_def)
  have least: "(next_free_time best, emp_id best) \<le> (next_free_time r, emp_id r)"
    if "r \<in> set (employees db)" for r
  proof -
    have "snapshot_of r \<in> set ?emps" using that by (simp add: get_all_employees_def)
    then have "(next_free_time b, emp_id b)
        \<le> (next_free_time (snapshot_of r), emp_id (snapshot_of r))"
      using b(3) by blast
    then show ?thesis using ids by (simp add: snapshot_of_def)
  qed
  have tie: "\<forall>r \<in> set (employees db). emp_id best \<le> emp_id r"
    if "\<forall>r \<in> set (employees db). next_free_time r = 9"
  proof
    fix r assume r: "r \<in> set (employees db)"
    have "next_free_time r = 9" "next_free_time best = 9" using that r best(1) by auto
    then show "emp_id best \<le> emp_id r" using least [OF r] by simp
  qed
  show "\<exists>best \<in> set (employees db).
         find_best_employee db d' = Inr (Some (emp_id best)) \<and>
         (\<forall>r \<in> set (employees db).
            (next_free_time best, emp_id best) \<le> (next_free_time r, emp_id r)) \<and>
         ((\<forall>r \<in> set (employees db). next_free_time r = 9) \<longrightarrow>
            (\<forall>r \<in> set (employees db). emp_id best \<le> emp_id r))"
    using best(1) res least tie by blast
qed

text \<open>
  The theorem at the table of the example, with B stored before A: both are at
  workload 9, a task of 1 hour goes to A.
\<close>

theorem find_best_employee_overflow_witness:
  "employees \<lparr>employees = [\<lparr>emp_id = ''B'', current_workload = 9, next_free_time = 9\<rparr>,
                            \<lparr>emp_id = ''A'', current_workload = 9, next_free_time = 9\<rparr>],
              tasks = [], write_locked = False\<rparr> \<noteq> []
   \<and> map current_workload (employees
          \<lparr>employees = [\<lparr>emp_id = ''B'', current_workload = 9, next_free_time = 9\<rparr>,
                        \<lparr>emp_id = ''A'', current_workload = 9, next_free_time = 9\<rparr>],
           tasks = [], write_locked = False\<rparr>) = [9, 9]
   \<and> (0::real) < 1
   \<and> (\<exists>best \<in> set (employees
          \<lparr>employees = [\<lparr>emp_id = ''B'', current_workload = 9, next_free_time = 9\<rparr>,
                        \<lparr>emp_id = ''A'', current_workload = 9, next_free_time = 9\<rparr>],
           tasks = [], write_locked = False\<rparr>).
        find_best_employee
          \<lparr>employees = [\<lparr>emp_id = ''B'', current_workload = 9, next_free_time = 9\<rparr>,
                        \<lparr>emp_id = ''A'', current_workload = 9, next_free_time = 9\<rparr>],
           tasks = [], write_locked = False\<rparr> 1 = Inr (Some (emp_id best)))
   \<and> find_best_employee
          \<lparr>employees = [\<lparr>emp_id = ''B'', current_workload = 9, next_free_time = 9\<rparr>,
                        \<lparr>emp_id = ''A'', current_workload = 9, next_free_time = 9\<rparr>],
           tasks = [], write_locked = False\<rparr> 1 = Inr (Some ''A'')"
proof -
  let ?db = "\<lparr>employees = [\<lparr>emp_id = ''B'', current_workload = 9, next_free_time = 9\<rparr>,
                          \<lparr>emp_id = ''A'', current_workload = 9, next_free_time = 9\<rparr>],
             tasks = [], write_locked = False\<rparr>"
  have h: "employees ?db \<noteq> [] \<and> (\<forall>r \<in> set (employees ?db). current_workload r = 9)
      \<and> (0::real) < 1"
    by simp
  have m: "map current_workload (employees ?db) = [9, 9]" by simp
  have r: "find_best_employee ?db 1 = Inr (Some ''A'')"
    by (simp add: find_best_employee_def find_best_employee_in_def get_all_employees_def
        snapshot_of_def double_defs)
  from find_best_employee_overflow [of "[]" 0 ?db 1] h
  have "\<exists>best \<in> set (employees ?db). find_best_employee ?db 1 = Inr (Some (emp_id best))"
    by blast
  with h m r show ?thesis by blast
qed

text \<open>
  C8 (empty roster). When the table of employees is empty, the policy returns
  \<^verbatim>\<open>None\<close> for every duration; it does not raise.
\<close>

theorem find_best_employee_empty_roster:
  "find_best_employee_in [] d = Inr None
   \<and> find_best_employee \<lparr>employees = [], tasks = ts, write_locked = w\<rparr> d = Inr None
   \<and> find_best_employee init_database d = Inr None"
  by (simp add: find_best_employee_def find_best_employee_in_def get_all_employees_def
      init_database_def)

text \<open>
  C9 (determinism). The policy reads nothing but the list of employee snapshots and the
  duration: two stores with the same list of snapshots get the same answer, whatever
  their tasks and whether or not a left-open connection holds the write lock. The row order, which a \<^verbatim>\<open>SELECT\<close> without \<^verbatim>\<open>ORDER BY\<close> leaves open, does not
  matter either: two lists with the same set of snapshots get the same answer.
\<close>

theorem find_best_employee_deterministic:
  "(get_all_employees db1 = get_all_employees db2 \<and> d1 = d2 \<longrightarrow>
      find_best_employee db1 d1 = find_best_employee db2 d2)
   \<and> (set emps1 = set emps2 \<and> d1 = d2 \<longrightarrow>
      find_best_employee_in emps1 d1 = find_best_employee_in emps2 d2)"
  using find_best_employee_in_set [of emps1 emps2 d2]
  by (auto simp: find_best_employee_def)

text \<open>
  The theorem at two stores that hold the same two employees in opposite row order and
  different tasks, the first of them write-locked.
\<close>

theorem find_best_employee_deterministic_witness:
  "set (get_all_employees
          \<lparr>employees = [\<lparr>emp_id = ''A'', current_workload = 2, next_free_time = 2\<rparr>,
                        \<lparr>emp_id = ''B'', current_workload = 0, next_free_time = 0\<rparr>],
           tasks = [\<lparr>task_id = ''TASK_001'', description = ''x'', duration = 2,
                     assigned_to = ''A'', created_at = 0\<rparr>],
           write_locked = True\<rparr>)
   = set (get_all_employees
          \<lparr>employees = [\<lparr>emp_id = ''B'', current_workload = 0, next_free_time = 0\<rparr>,
                        \<lparr>emp_id = ''A'', current_workload = 2, next_free_time = 2\<rparr>],
           tasks = [], write_locked = False\<rparr>)
   \<and> find_best_employee_in (get_all_employees
          \<lparr>employees = [\<lparr>emp_id = ''A'', current_workload = 2, next_free_time = 2\<rparr>,
                        \<lparr>emp_id = ''B'', current_workload = 0, next_free_time = 0\<rparr>],
           tasks = [\<lparr>task_id = ''TASK_001'', description = ''x'', duration = 2,
                     assigned_to = ''A'', created_at = 0\<rparr>],
           write_locked = True\<rparr>) 3
   = find_best_employee_in (get_all_employees
          \<lparr>employees = [\<lparr>emp_id = ''B'', current_workload = 0, next_free_time = 0\<rparr>,
                        \<lparr>emp_id = ''A'', current_workload = 2, next_free_time = 2\<rparr>],
           tasks = [], write_locked = False\<rparr>) 3"
proof -
  let ?e1 = "get_all_employees
          \<lparr>employees = [\<lparr>emp_id = ''A'', current_workload = 2, next_free_time = 2\<rparr>,
                        \<lparr>emp_id = ''B'', current_workload = 0, next_free_time = 0\<rparr>],
           tasks = [\<lparr>task_id = ''TASK_001'', description = ''x'', duration = 2,
                     assigned_to = ''A'', created_at = 0\<rparr>],
           write_locked = True\<rparr>"
  let ?e2 = "get_all_employees
          \<lparr>employees = [\<lparr>emp_id = ''B'', current_workload = 0, next_free_time = 0\<rparr>,
                        \<lparr>emp_id = ''A'', current_workload = 2, next_free_time = 2\<rparr>],
           tasks = [], write_locked = False\<rparr>"
  have h: "set ?e1 = set ?e2"
    by (auto simp: get_all_employees_def)
  from find_best_employee_deterministic [of _ _ 3 3 ?e1 ?e2] h
  have "find_best_employee_in ?e1 3 = find_best_employee_in ?e2 3" by blast
  with h show ?thesis by blast
qed

section \<open>The workload store\<close>

subsection \<open>\<^verbatim>\<open>add_task\<close>\<close>

lemma add_task_returns_iff:
  "fst (add_task db now tid descr d e) = Inr () \<longleftrightarrow>
   \<not> write_locked db \<and> tid \<notin> set (map task_id (tasks db))"
  by (simp add: add_task_def)

lemma add_task_returned:
  "fst (add_task db now tid descr d e) = Inr () \<Longrightarrow>
   snd (add_task db now tid descr d e) =
     db\<lparr>tasks := tasks db @
            [\<lparr>task_id = tid, description = descr, duration = d,
              assigned_to = e, created_at = now\<rparr>],
        employees :=
            map (\<lambda>r. if emp_id r = e
                      then r\<lparr>current_workload := double_add (current_workload r) d,
                             next_free_time := double_add (current_workload r) d\<rparr>
                      else r)
                (employees db)\<rparr>"
  by (simp add: add_task_def split: if_splits)

lemma add_task_raised:
  "fst (add_task db now tid descr d e) \<noteq> Inr () \<Longrightarrow>
   employees (snd (add_task db now tid descr d e)) = employees db \<and>
   tasks (snd (add_task db now tid descr d e)) = tasks db"
  by (simp add: add_task_def split: if_splits)

lemma find_updated_row:
  "find (\<lambda>r. emp_id r = e)
     (map (\<lambda>r. if emp_id r = e
               then r\<lparr>current_workload := double_add (current_workload r) d,
                      next_free_time := double_add (current_workload r) d\<rparr>
               else r) rows)
   = map_option (\<lambda>r. r\<lparr>current_workload := double_add (current_workload r) d,
                         next_free_time := double_add (current_workload r) d\<rparr>)
       (find (\<lambda>r. emp_id r = e) rows)"
  by (induction rows) auto

lemma add_task_employee_row:
  assumes "fst (add_task db now tid descr d e) = Inr ()"
  shows "employee_row (snd (add_task db now tid descr d e)) e =
           map_option (\<lambda>r. r\<lparr>current_workload := double_add (current_workload r) d,
                                next_free_time := double_add (current_workload r) d\<rparr>)
             (employee_row db e)"
  by (simp add: add_task_returned [OF assms] employee_row_def find_updated_row)

text \<open>
  C2. Let \<open>e\<close> be an employee of the table with row \<open>r\<close>. After every call of
  \<^verbatim>\<open>add_task\<close> for \<open>e\<close> with duration \<open>d\<close> that returns, the row of \<open>e\<close> has
  \<open>next_free_time\<close> equal to the \<open>current_workload\<close> of \<open>r\<close> plus \<open>d\<close> (the sum of two
  floats), which is also its new \<open>current_workload\<close>. The call returns whenever its task
  id is not yet in the table and no left-open connection holds the write lock. (With a
  task id that is already in the table the \<^verbatim>\<open>INSERT\<close> raises and the method is left
  before the \<^verbatim>\<open>UPDATE\<close>.)
\<close>

theorem add_task_next_free_time:
  assumes "employee_row db e = Some r"
  shows "(tid \<notin> set (map task_id (tasks db)) \<and> \<not> write_locked db \<longrightarrow>
            fst (add_task db now tid descr d e) = Inr ())
       \<and> (fst (add_task db now tid descr d e) = Inr () \<longrightarrow>
            (\<exists>r'. employee_row (snd (add_task db now tid descr d e)) e = Some r' \<and>
                  next_free_time r' = double_add (current_workload r) d \<and>
                  next_free_time r' = current_workload r'))"
proof (intro conjI impI)
  assume "tid \<notin> set (map task_id (tasks db)) \<and> \<not> write_locked db"
  then show "fst (add_task db now tid descr d e) = Inr ()"
    by (simp add: add_task_returns_iff)
next
  assume "fst (add_task db now tid descr d e) = Inr ()"
  then have "employee_row (snd (add_task db now tid descr d e)) e =
      Some (r\<lparr>current_workload := double_add (current_workload r) d,
              next_free_time := double_add (current_workload r) d\<rparr>)"
    using assms by (simp add: add_task_employee_row)
  then show "\<exists>r'. employee_row (snd (add_task db now tid descr d e)) e = Some r' \<and>
                  next_free_time r' = double_add (current_workload r) d \<and>
                  next_free_time r' = current_workload r'"
    by simp
qed

text \<open>
  The theorem at a store in which E1 already carries 3 hours: a task of 2.5 hours
  brings both columns to 5.5.
\<close>

theorem add_task_next_free_time_witness:
  "employee_row
     \<lparr>employees = [\<lparr>emp_id = ''E1'', current_workload = 3, next_free_time = 3\<rparr>],
      tasks = [\<lparr>task_id = ''TASK_001'', description = ''a'', duration = 3,
                assigned_to = ''E1'', created_at = 0\<rparr>],
      write_locked = False\<rparr> ''E1''
     = Some \<lparr>emp_id = ''E1'', current_workload = 3, next_free_time = 3\<rparr>
   \<and> fst (add_task
          \<lparr>employees = [\<lparr>emp_id = ''E1'', current_workload = 3, next_free_time = 3\<rparr>],
           tasks = [\<lparr>task_id = ''TASK_001'', description = ''a'', duration = 3,
                     assigned_to = ''E1'', created_at = 0\<rparr>],
           write_locked = False\<rparr>
          10 ''TASK_002'' ''b'' (5 / 2) ''E1'') = Inr ()
   \<and> (\<exists>r'. employee_row (snd (add_task
          \<lparr>employees = [\<lparr>emp_id = ''E1'', current_workload = 3, next_free_time = 3\<rparr>],
           tasks = [\<lparr>task_id = ''TASK_001'', description = ''a'', duration = 3,
                     assigned_to = ''E1'', created_at = 0\<rparr>],
           write_locked = False\<rparr>
          10 ''TASK_002'' ''b'' (5 / 2) ''E1'')) ''E1'' = Some r'
        \<and> next_free_time r' = 11 / 2 \<and> current_workload r' = 11 / 2)"
proof -
  let ?db = "\<lparr>employees = [\<lparr>emp_id = ''E1'', current_workload = 3, next_free_time = 3\<rparr>],
      tasks = [\<lparr>task_id = ''TASK_001'', description = ''a'', duration = 3,
                assigned_to = ''E1'', created_at = 0\<rparr>],
      write_locked = False\<rparr>"
  have h: "employee_row ?db ''E1''
      = Some \<lparr>emp_id = ''E1'', current_workload = 3, next_free_time = 3\<rparr>"
    by (simp add: employee_row_def)
  have f: "''TASK_002'' \<notin> set (map task_id (tasks ?db)) \<and> \<not> write_locked ?db" by simp
  from add_task_next_free_time [OF h, of "''TASK_002''" 10 "''b''" "5 / 2"] f
  have ret: "fst (add_task ?db 10 ''TASK_002'' ''b'' (5 / 2) ''E1'') = Inr ()"
    by blast
  have s: "double_add 3 (5 / 2) = 11 / 2" by (simp add: double_defs)
  from add_task_next_free_time [OF h, of "''TASK_002''" 10 "''b''" "5 / 2"] ret
  obtain r' where "employee_row (snd (add_task ?db 10 ''TASK_002'' ''b'' (5 / 2) ''E1'')) ''E1''
        = Some r'"
      "next_free_time r' = double_add 3 (5 / 2)" "next_free_time r' = current_workload r'"
    by auto
  then have "\<exists>r'. employee_row (snd (add_task ?db 10 ''TASK_002'' ''b'' (5 / 2) ''E1'')) ''E1''
        = Some r'
      \<and> next_free_time r' = 11 / 2 \<and> current_workload r' = 11 / 2"
    using s by auto
  with h ret show ?thesis by blast
qed

text \<open>
  C5. The claim: \<^verbatim>\<open>add_task\<close> for an employee id that is not in the table fails and inserts
  no task. The code, at a table that holds only E1 and a task for E2: the call returns,
  the task row is stored, and no employee row changes.
\<close>

theorem add_task_unknown_employee_inserts:
  "add_task
     \<lparr>employees = [\<lparr>emp_id = ''E1'', current_workload = 0, next_free_time = 0\<rparr>],
      tasks = [], write_locked = False\<rparr>
     0 ''TASK_001'' ''write report'' 2 ''E2''
   = (Inr (),
      \<lparr>employees = [\<lparr>emp_id = ''E1'', current_workload = 0, next_free_time = 0\<rparr>],
       tasks = [\<lparr>task_id = ''TASK_001'', description = ''write report'', duration = 2,
                 assigned_to = ''E2'', created_at = 0\<rparr>],
       write_locked = False\<rparr>)"
  by (simp add: add_task_def)

subsection \<open>\<^verbatim>\<open>add_employee\<close>\<close>

lemma one_row_of_id:
  "distinct (map emp_id rows) \<Longrightarrow> e \<in> set (map emp_id rows) \<Longrightarrow>
   length (filter (\<lambda>r. emp_id r = e) rows) = 1"
proof (induction rows)
  case Nil
  then show ?case by simp
next
  case (Cons r rows)
  show ?case
  proof (cases "emp_id r = e")
    case True
    have notin: "emp_id r \<notin> emp_id ` set rows" using Cons.prems(1) by simp
    have "\<forall>x \<in> set rows. emp_id x \<noteq> e"
    proof (intro ballI notI)
      fix x assume "x \<in> set rows" and "emp_id x = e"
      then have "emp_id r \<in> emp_id ` set rows" using True by (metis imageI)
      with notin show False by contradiction
    qed
    then have "filter (\<lambda>r. emp_id r = e) rows = []" by (simp add: filter_empty_conv)
    then show ?thesis using True by simp
  next
    case False
    then show ?thesis using Cons by auto
  qed
qed

lemma no_row_of_id:
  "e \<notin> set (map emp_id rows) \<Longrightarrow> filter (\<lambda>r. emp_id r = e) rows = []"
  by (auto simp: filter_empty_conv)

lemma find_append_fresh:
  "e \<notin> set (map emp_id rows) \<Longrightarrow>
   find (\<lambda>r. emp_id r = e) (rows @ [row]) = (if emp_id row = e then Some row else None)"
  by (induction rows) auto

lemma add_employee_unique_emp_ids:
  "unique_emp_ids db \<Longrightarrow> unique_emp_ids (snd (add_employee db e))"
  by (auto simp: unique_emp_ids_def add_employee_def)

lemma add_task_unique_emp_ids:
  assumes "unique_emp_ids db"
  shows "unique_emp_ids (snd (add_task db now tid descr d e))"
proof -
  have "map emp_id (employees (snd (add_task db now tid descr d e)))
      = map emp_id (employees db)"
    by (auto simp: add_task_def)
  then show ?thesis using assms by (simp add: unique_emp_ids_def)
qed

lemma remove_employee_unique_emp_ids:
  "unique_emp_ids db \<Longrightarrow> unique_emp_ids (snd (remove_employee db e))"
  by (simp add: unique_emp_ids_def remove_employee_def distinct_map_filter)

lemma apply_operation_unique_emp_ids:
  "unique_emp_ids db \<Longrightarrow> unique_emp_ids (apply_operation db op)"
proof (cases op)
  case ResetAllData
  assume "unique_emp_ids db"
  then show ?thesis using ResetAllData by (simp add: reset_all_data_def unique_emp_ids_def)
next
  case CollectGarbage
  assume "unique_emp_ids db"
  then show ?thesis using CollectGarbage by (simp add: collect_garbage_def unique_emp_ids_def)
qed (simp_all add: add_employee_unique_emp_ids remove_employee_unique_emp_ids
     add_task_unique_emp_ids)

lemma run_unique_emp_ids:
  "unique_emp_ids db \<Longrightarrow> unique_emp_ids (run db ops)"
proof (induction ops arbitrary: db)
  case Nil
  then show ?case by (simp add: run_def)
next
  case (Cons op ops)
  then have "unique_emp_ids (run (apply_operation db op) ops)"
    using apply_operation_unique_emp_ids by blast
  then show ?case by (simp add: run_def)
qed

lemma reachable_unique_emp_ids: "unique_emp_ids (run init_database ops)"
  by (rule run_unique_emp_ids) (simp add: unique_emp_ids_def init_database_def)

text \<open>
  What \<^verbatim>\<open>add_employee\<close> does while no left-open connection holds the write lock, in a
  store whose employee ids are unique (the primary key): for an id of the table it
  answers \<^verbatim>\<open>False\<close> and leaves both tables as they were, with exactly one row of that id;
  for a new id it answers \<^verbatim>\<open>True\<close> and the table has exactly one row of that id, with
  workload 0 and next free time 0, beside the rows it had.
\<close>

lemma add_employee_without_lock:
  assumes "unique_emp_ids db" and "\<not> write_locked db"
  shows "(e \<in> set (map emp_id (employees db)) \<longrightarrow>
            fst (add_employee db e) = Inr False \<and>
            employees (snd (add_employee db e)) = employees db \<and>
            tasks (snd (add_employee db e)) = tasks db \<and>
            length (filter (\<lambda>r. emp_id r = e) (employees (snd (add_employee db e)))) = 1)
       \<and> (e \<notin> set (map emp_id (employees db)) \<longrightarrow>
            fst (add_employee db e) = Inr True \<and>
            length (filter (\<lambda>r. emp_id r = e) (employees (snd (add_employee db e)))) = 1 \<and>
            employee_row (snd (add_employee db e)) e
              = Some \<lparr>emp_id = e, current_workload = 0, next_free_time = 0\<rparr> \<and>
            filter (\<lambda>r. emp_id r \<noteq> e) (employees (snd (add_employee db e))) = employees db \<and>
            tasks (snd (add_employee db e)) = tasks db)"
proof (intro conjI impI)
  assume ex: "e \<in> set (map emp_id (employees db))"
  then have eq: "add_employee db e = (Inr False, db\<lparr>write_locked := True\<rparr>)"
    using assms(2) by (simp add: add_employee_def)
  show "fst (add_employee db e) = Inr False" by (simp add: eq)
  show "employees (snd (add_employee db e)) = employees db" by (simp add: eq)
  show "tasks (snd (add_employee db e)) = tasks db" by (simp add: eq)
  show "length (filter (\<lambda>r. emp_id r = e) (employees (snd (add_employee db e)))) = 1"
    using assms(1) ex one_row_of_id [of "employees db" e]
    by (simp add: eq unique_emp_ids_def)
next
  assume fr: "e \<notin> set (map emp_id (employees db))"
  let ?row = "\<lparr>emp_id = e, current_workload = 0, next_free_time = 0\<rparr>"
  have eq: "add_employee db e = (Inr True, db\<lparr>employees := employees db @ [?row]\<rparr>)"
    using fr assms(2) by (simp add: add_employee_def)
  show "fst (add_employee db e) = Inr True" by (simp add: eq)
  show "length (filter (\<lambda>r. emp_id r = e) (employees (snd (add_employee db e)))) = 1"
    using no_row_of_id [OF fr] by (simp add: eq)
  show "employee_row (snd (add_employee db e)) e = Some ?row"
    using find_append_fresh [OF fr, of ?row] by (simp add: eq employee_row_def)
  have "filter (\<lambda>r. emp_id r \<noteq> e) (employees db) = employees db"
    using fr by (auto simp: filter_id_conv)
  then show "filter (\<lambda>r. emp_id r \<noteq> e) (employees (snd (add_employee db e))) = employees db"
    by (simp add: eq)
  show "tasks (snd (add_employee db e)) = tasks db" by (simp add: eq)
qed

lemma add_employee_with_lock:
  "write_locked db \<Longrightarrow> add_employee db e = (Inl OperationalError, db)"
  by (simp add: add_employee_def)

text \<open>
  C6. The claim: \<^verbatim>\<open>add_employee\<close> for an id of the table reports failure and changes no
  state, and for a new id it succeeds and inserts the employee. The code, from the
  empty store: the first call for E1 answers \<^verbatim>\<open>True\<close>; the second call for E1 answers
  \<^verbatim>\<open>False\<close> and leaves its connection open with the write lock; the next call, for the
  new id E2, raises \<^verbatim>\<open>OperationalError\<close> and E2 is not inserted.
\<close>

theorem add_employee_after_duplicate_raises:
  "fst (add_employee init_database ''E1'') = Inr True
   \<and> fst (add_employee (snd (add_employee init_database ''E1'')) ''E1'') = Inr False
   \<and> write_locked (snd (add_employee (snd (add_employee init_database ''E1'')) ''E1''))
   \<and> ''E2'' \<notin> set (map emp_id (employees
        (snd (add_employee (snd (add_employee init_database ''E1'')) ''E1''))))
   \<and> add_employee (snd (add_employee (snd (add_employee init_database ''E1'')) ''E1'')) ''E2''
      = (Inl OperationalError,
         \<lparr>employees = [\<lparr>emp_id = ''E1'', current_workload = 0, next_free_time = 0\<rparr>],
          tasks = [], write_locked = True\<rparr>)"
  by (simp add: add_employee_def init_database_def)

subsection \<open>\<^verbatim>\<open>remove_employee\<close>\<close>

lemma set_get_all_tasks: "set (get_all_tasks db) = set (tasks db)"
  by (simp add: get_all_tasks_def)

lemma find_other_row:
  "e' \<noteq> e \<Longrightarrow>
   find (\<lambda>r. emp_id r = e') (filter (\<lambda>r. emp_id r \<noteq> e) rows) = find (\<lambda>r. emp_id r = e') rows"
  by (induction rows) auto

text \<open>
  What \<^verbatim>\<open>remove_employee\<close> does while no left-open connection holds the write lock: it
  returns; afterwards no employee has the id and no task is assigned to it, in the
  table and in the list that \<^verbatim>\<open>get_all_tasks\<close> returns; and when no employee had the id,
  in a store whose tasks all name employees of the table, the store is as it was.
\<close>

lemma remove_employee_without_lock:
  assumes "\<not> write_locked db"
  shows "fst (remove_employee db e) = Inr ()
       \<and> e \<notin> set (map emp_id (employees (snd (remove_employee db e))))
       \<and> (\<forall>t \<in> set (tasks (snd (remove_employee db e))). assigned_to t \<noteq> e)
       \<and> (\<forall>t \<in> set (get_all_tasks (snd (remove_employee db e))). assigned_to t \<noteq> e)
       \<and> (e \<notin> set (map emp_id (employees db)) \<and> tasks_reference_employees db \<longrightarrow>
            snd (remove_employee db e) = db)"
proof (intro conjI impI)
  have eq: "remove_employee db e =
      (Inr (), db\<lparr>tasks := filter (\<lambda>t. assigned_to t \<noteq> e) (tasks db),
                  employees := filter (\<lambda>r. emp_id r \<noteq> e) (employees db)\<rparr>)"
    using assms by (simp add: remove_employee_def)
  show "fst (remove_employee db e) = Inr ()" by (simp add: eq)
  show "e \<notin> set (map emp_id (employees (snd (remove_employee db e))))"
    by (auto simp: eq)
  show t: "\<forall>t \<in> set (tasks (snd (remove_employee db e))). assigned_to t \<noteq> e"
    by (simp add: eq)
  show "\<forall>t \<in> set (get_all_tasks (snd (remove_employee db e))). assigned_to t \<noteq> e"
    using t by (simp add: set_get_all_tasks)
  assume a: "e \<notin> set (map emp_id (employees db)) \<and> tasks_reference_employees db"
  then have "\<forall>t \<in> set (tasks db). assigned_to t \<noteq> e"
    by (auto simp: tasks_reference_employees_def)
  then have ts: "filter (\<lambda>t. assigned_to t \<noteq> e) (tasks db) = tasks db"
    by (simp add: filter_id_conv)
  have es: "filter (\<lambda>r. emp_id r \<noteq> e) (employees db) = employees db"
    using a by (auto simp: filter_id_conv)
  show "snd (remove_employee db e) = db"
    by (simp add: eq ts es)
qed


text \<open>
  C10. \<^verbatim>\<open>remove_employee\<close> for an id changes nothing else, whether it returns or raises:
  the rows of the other employees are the same rows in the same order, so each keeps
  its workload and its next free time, and the tasks assigned to other ids are the
  same tasks in the same order, in the table and in the list that \<^verbatim>\<open>get_all_tasks\<close>
  returns.
\<close>

theorem remove_employee_frame:
  "filter (\<lambda>r. emp_id r \<noteq> e) (employees (snd (remove_employee db e)))
     = filter (\<lambda>r. emp_id r \<noteq> e) (employees db)
   \<and> filter (\<lambda>t. assigned_to t \<noteq> e) (tasks (snd (remove_employee db e)))
     = filter (\<lambda>t. assigned_to t \<noteq> e) (tasks db)
   \<and> filter (\<lambda>t. assigned_to t \<noteq> e) (get_all_tasks (snd (remove_employee db e)))
     = filter (\<lambda>t. assigned_to t \<noteq> e) (get_all_tasks db)
   \<and> (e' \<noteq> e \<longrightarrow> employee_row (snd (remove_employee db e)) e' = employee_row db e')"
proof (intro conjI impI)
  show "filter (\<lambda>r. emp_id r \<noteq> e) (employees (snd (remove_employee db e)))
     = filter (\<lambda>r. emp_id r \<noteq> e) (employees db)"
    by (simp add: remove_employee_def)
  show "filter (\<lambda>t. assigned_to t \<noteq> e) (tasks (snd (remove_employee db e)))
     = filter (\<lambda>t. assigned_to t \<noteq> e) (tasks db)"
    by (simp add: remove_employee_def)
  show "filter (\<lambda>t. assigned_to t \<noteq> e) (get_all_tasks (snd (remove_employee db e)))
     = filter (\<lambda>t. assigned_to t \<noteq> e) (get_all_tasks db)"
    by (simp add: remove_employee_def get_all_tasks_def rev_filter [symmetric] filter_sort)
next
  assume "e' \<noteq> e"
  then show "employee_row (snd (remove_employee db e)) e' = employee_row db e'"
    by (simp add: employee_row_def remove_employee_def find_other_row)
qed

text \<open>
  The theorem at a store with E1 and E2, each with one task: after the removal of E1
  the row of E2 still reads 2 hours.
\<close>

theorem remove_employee_frame_witness:
  "''E2'' \<noteq> ''E1''
   \<and> employees (snd (remove_employee
        \<lparr>employees = [\<lparr>emp_id = ''E1'', current_workload = 1, next_free_time = 1\<rparr>,
                      \<lparr>emp_id = ''E2'', current_workload = 2, next_free_time = 2\<rparr>],
         tasks = [\<lparr>task_id = ''TASK_001'', description = ''a'', duration = 1,
                   assigned_to = ''E1'', created_at = 0\<rparr>,
                  \<lparr>task_id = ''TASK_002'', description = ''b'', duration = 2,
                   assigned_to = ''E2'', created_at = 10\<rparr>],
         write_locked = False\<rparr> ''E1''))
     = [\<lparr>emp_id = ''E2'', current_workload = 2, next_free_time = 2\<rparr>]
   \<and> employee_row (snd (remove_employee
        \<lparr>employees = [\<lparr>emp_id = ''E1'', current_workload = 1, next_free_time = 1\<rparr>,
                      \<lparr>emp_id = ''E2'', current_workload = 2, next_free_time = 2\<rparr>],
         tasks = [\<lparr>task_id = ''TASK_001'', description = ''a'', duration = 1,
                   assigned_to = ''E1'', created_at = 0\<rparr>,
                  \<lparr>task_id = ''TASK_002'', description = ''b'', duration = 2,
                   assigned_to = ''E2'', created_at = 10\<rparr>],
         write_locked = False\<rparr> ''E1'')) ''E2''
     = employee_row
        \<lparr>employees = [\<lparr>emp_id = ''E1'', current_workload = 1, next_free_time = 1\<rparr>,
                      \<lparr>emp_id = ''E2'', current_workload = 2, next_free_time = 2\<rparr>],
         tasks = [\<lparr>task_id = ''TASK_001'', description = ''a'', duration = 1,
                   assigned_to = ''E1'', created_at = 0\<rparr>,
                  \<lparr>task_id = ''TASK_002'', description = ''b'', duration = 2,
                   assigned_to = ''E2'', created_at = 10\<rparr>],
         write_locked = False\<rparr> ''E2''
   \<and> employee_row
        \<lparr>employees = [\<lparr>emp_id = ''E1'', current_workload = 1, next_free_time = 1\<rparr>,
                      \<lparr>emp_id = ''E2'', current_workload = 2, next_free_time = 2\<rparr>],
         tasks = [\<lparr>task_id = ''TASK_001'', description = ''a'', duration = 1,
                   assigned_to = ''E1'', created_at = 0\<rparr>,
                  \<lparr>task_id = ''TASK_002'', description = ''b'', duration = 2,
                   assigned_to = ''E2'', created_at = 10\<rparr>],
         write_locked = False\<rparr> ''E2''
     = Some \<lparr>emp_id = ''E2'', current_workload = 2, next_free_time = 2\<rparr>"
proof -
  let ?db = "\<lparr>employees = [\<lparr>emp_id = ''E1'', current_workload = 1, next_free_time = 1\<rparr>,
                      \<lparr>emp_id = ''E2'', current_workload = 2, next_free_time = 2\<rparr>],
         tasks = [\<lparr>task_id = ''TASK_001'', description = ''a'', duration = 1,
                   assigned_to = ''E1'', created_at = 0\<rparr>,
                  \<lparr>task_id = ''TASK_002'', description = ''b'', duration = 2,
                   assigned_to = ''E2'', created_at = 10\<rparr>],
         write_locked = False\<rparr>"
  have h: "''E2'' \<noteq> ''E1''" by simp
  from remove_employee_frame [of "''E1''" ?db "''E2''"] h
  have k: "employee_row (snd (remove_employee ?db ''E1'')) ''E2'' = employee_row ?db ''E2''"
    by blast
  have v: "employee_row ?db ''E2''
      = Some \<lparr>emp_id = ''E2'', current_workload = 2, next_free_time = 2\<rparr>"
    by (simp add: employee_row_def)
  have r: "employees (snd (remove_employee ?db ''E1''))
      = [\<lparr>emp_id = ''E2'', current_workload = 2, next_free_time = 2\<rparr>]"
    by (simp add: remove_employee_def)
  from h r k v show ?thesis by blast
qed

subsection \<open>Workloads and tasks agree\<close>

lemma store_invariant_tables:
  "employees db' = employees db \<Longrightarrow> tasks db' = tasks db \<Longrightarrow>
   store_invariant db \<Longrightarrow> store_invariant db'"
  by (simp add: store_invariant_def workload_consistent_def tasks_reference_employees_def
      assigned_hours_def)

lemma add_task_assigned_hours:
  "fst (add_task db now tid descr d e) = Inr () \<Longrightarrow>
   assigned_hours (snd (add_task db now tid descr d e)) e' =
     (if e = e' then double_add (assigned_hours db e') d else assigned_hours db e')"
  by (simp add: add_task_returned assigned_hours_def)

lemma add_task_workload_consistent:
  assumes "fst (add_task db now tid descr d e) = Inr ()" and "workload_consistent db"
  shows "workload_consistent (snd (add_task db now tid descr d e))"
proof -
  let ?db' = "snd (add_task db now tid descr d e)"
  have emps: "employees ?db' =
      map (\<lambda>r. if emp_id r = e
                then r\<lparr>current_workload := double_add (current_workload r) d,
                       next_free_time := double_add (current_workload r) d\<rparr>
                else r) (employees db)"
    by (simp add: add_task_returned [OF assms(1)])
  show ?thesis
    unfolding workload_consistent_def
  proof
    fix r assume "r \<in> set (employees ?db')"
    then obtain r0 where r0: "r0 \<in> set (employees db)"
      and r: "r = (if emp_id r0 = e
                   then r0\<lparr>current_workload := double_add (current_workload r0) d,
                           next_free_time := double_add (current_workload r0) d\<rparr>
                   else r0)"
      unfolding emps by auto
    have old: "current_workload r0 = assigned_hours db (emp_id r0)"
      using assms(2) r0 by (simp add: workload_consistent_def)
    show "current_workload r = assigned_hours ?db' (emp_id r)"
      using r old add_task_assigned_hours [OF assms(1), of "emp_id r0"] by auto
  qed
qed

lemma add_task_tasks_reference_employees:
  assumes "fst (add_task db now tid descr d e) = Inr ()" and "tasks_reference_employees db"
    and "e \<in> set (map emp_id (employees db))"
  shows "tasks_reference_employees (snd (add_task db now tid descr d e))"
proof -
  let ?f = "\<lambda>r. if emp_id r = e
                then r\<lparr>current_workload := double_add (current_workload r) d,
                       next_free_time := double_add (current_workload r) d\<rparr>
                else r"
  have "map emp_id (map ?f (employees db)) = map emp_id (employees db)"
    by (induction "employees db") auto
  then show ?thesis
    using assms(2,3)
    unfolding tasks_reference_employees_def add_task_returned [OF assms(1)] by auto
qed

lemma add_task_store_invariant:
  assumes "store_invariant db" and "e \<in> set (map emp_id (employees db))"
  shows "store_invariant (snd (add_task db now tid descr d e))"
proof (cases "fst (add_task db now tid descr d e) = Inr ()")
  case True
  then show ?thesis
    using assms add_task_workload_consistent [OF True]
      add_task_tasks_reference_employees [OF True]
    by (simp add: store_invariant_def)
next
  case False
  from add_task_raised [OF False] assms(1) show ?thesis
    by (blast intro: store_invariant_tables)
qed

lemma assigned_hours_unreferenced:
  assumes "\<forall>t \<in> set (tasks db). assigned_to t \<noteq> e"
  shows "assigned_hours db e = 0"
proof -
  from assms have "filter (\<lambda>t. assigned_to t = e) (tasks db) = []"
    by (simp add: filter_empty_conv)
  then show ?thesis by (simp add: assigned_hours_def)
qed

lemma add_employee_store_invariant:
  assumes "store_invariant db"
  shows "store_invariant (snd (add_employee db e))"
proof (cases "\<not> write_locked db \<and> e \<notin> set (map emp_id (employees db))")
  case False
  then have "employees (snd (add_employee db e)) = employees db"
      "tasks (snd (add_employee db e)) = tasks db"
    by (auto simp: add_employee_def)
  then show ?thesis using assms by (blast intro: store_invariant_tables)
next
  case True
  let ?db' = "db\<lparr>employees := employees db @
                 [\<lparr>emp_id = e, current_workload = 0, next_free_time = 0\<rparr>]\<rparr>"
  have eq: "snd (add_employee db e) = ?db'" using True by (simp add: add_employee_def)
  have unref: "\<forall>t \<in> set (tasks db). assigned_to t \<noteq> e"
    using assms True by (auto simp: store_invariant_def tasks_reference_employees_def)
  have ah: "assigned_hours ?db' x = assigned_hours db x" for x
    by (simp add: assigned_hours_def)
  have "workload_consistent ?db'"
    using assms assigned_hours_unreferenced [OF unref]
    by (auto simp: store_invariant_def workload_consistent_def ah)
  moreover have "tasks_reference_employees ?db'"
    using assms by (auto simp: store_invariant_def tasks_reference_employees_def)
  ultimately show ?thesis unfolding eq store_invariant_def by simp
qed

lemma filter_other_id:
  "e' \<noteq> e \<Longrightarrow>
   filter (\<lambda>t. assigned_to t \<noteq> e \<and> assigned_to t = e') ts
     = filter (\<lambda>t. assigned_to t = e') ts"
  by (induction ts) auto

lemma remove_employee_store_invariant:
  assumes "store_invariant db"
  shows "store_invariant (snd (remove_employee db e))"
proof (cases "write_locked db")
  case True
  then show ?thesis using assms by (simp add: remove_employee_def)
next
  case False
  let ?db' = "db\<lparr>tasks := filter (\<lambda>t. assigned_to t \<noteq> e) (tasks db),
                 employees := filter (\<lambda>r. emp_id r \<noteq> e) (employees db)\<rparr>"
  have eq: "snd (remove_employee db e) = ?db'" using False by (simp add: remove_employee_def)
  have "workload_consistent ?db'"
    unfolding workload_consistent_def
  proof
    fix r assume "r \<in> set (employees ?db')"
    then have r: "r \<in> set (employees db)" "emp_id r \<noteq> e" by auto
    have "assigned_hours ?db' (emp_id r) = assigned_hours db (emp_id r)"
      using r(2) by (simp add: assigned_hours_def filter_other_id)
    then show "current_workload r = assigned_hours ?db' (emp_id r)"
      using assms r(1) by (simp add: store_invariant_def workload_consistent_def)
  qed
  moreover have "tasks_reference_employees ?db'"
    using assms by (auto simp: store_invariant_def tasks_reference_employees_def)
  ultimately show ?thesis unfolding eq store_invariant_def by simp
qed

lemma reset_all_data_store_invariant:
  "store_invariant db \<Longrightarrow> store_invariant (snd (reset_all_data db))"
  by (simp add: store_invariant_def workload_consistent_def tasks_reference_employees_def
      reset_all_data_def)

lemma collect_garbage_store_invariant:
  "store_invariant db \<Longrightarrow> store_invariant (collect_garbage db)"
  by (rule store_invariant_tables) (simp_all add: collect_garbage_def)

lemma init_database_store_invariant: "store_invariant init_database"
  by (simp add: store_invariant_def workload_consistent_def tasks_reference_employees_def
      init_database_def)

lemma apply_operation_store_invariant:
  assumes "store_invariant db" and "references_existing db op"
  shows "store_invariant (apply_operation db op)"
proof (cases op)
  case (AddEmployee e)
  then show ?thesis using assms(1) by (simp add: add_employee_store_invariant)
next
  case (AddTask now tid descr d e)
  then have "e \<in> set (map emp_id (employees db))" using assms(2) by simp
  then show ?thesis using AddTask assms(1) by (simp add: add_task_store_invariant)
next
  case (RemoveEmployee e)
  then show ?thesis using assms(1) by (simp add: remove_employee_store_invariant)
next
  case ResetAllData
  then show ?thesis using assms(1) by (simp add: reset_all_data_store_invariant)
next
  case CollectGarbage
  then show ?thesis using assms(1) by (simp add: collect_garbage_store_invariant)
qed

lemma run_store_invariant:
  "store_invariant db \<Longrightarrow> admissible db ops \<Longrightarrow> store_invariant (run db ops)"
proof (induction ops arbitrary: db)
  case Nil
  then show ?case by (simp add: run_def)
next
  case (Cons op ops)
  from Cons.prems have "store_invariant (apply_operation db op)"
    by (simp add: apply_operation_store_invariant)
  moreover from Cons.prems have "admissible (apply_operation db op) ops" by simp
  ultimately have "store_invariant (run (apply_operation db op) ops)" by (rule Cons.IH)
  then show ?case by (simp add: run_def)
qed

text \<open>The floats that Python reads from \<^verbatim>\<open>0.1\<close>, \<^verbatim>\<open>0.2\<close> and \<^verbatim>\<open>0.3\<close>.\<close>

lemma double_round_tenths:
  "double_round (1 / 10) = 3602879701896397 / 36028797018963968"
  "double_round (2 / 10) = 3602879701896397 / 18014398509481984"
  "double_round (3 / 10) = 5404319552844595 / 18014398509481984"
  by (simp_all add: double_defs)

lemma double_add_tenths:
  "double_add 0 (3602879701896397 / 36028797018963968)
     = 3602879701896397 / 36028797018963968"
  "double_add (3602879701896397 / 36028797018963968) (3602879701896397 / 18014398509481984)
     = 1351079888211149 / 4503599627370496"
  "double_add (1351079888211149 / 4503599627370496) (5404319552844595 / 18014398509481984)
     = 1351079888211149 / 2251799813685248"
  by (simp_all add: double_defs)

text \<open>
  C1 as the claim states it, with the sum of the durations as the sum of the numbers,
  fails: workloads and durations are floats, and the \<^verbatim>\<open>UPDATE\<close> rounds each time it adds.
  After \<^verbatim>\<open>add_employee\<close> for E1 and three tasks for E1 of 0.1, 0.2 and 0.3 hours, the
  workload of E1 is the float \<^verbatim>\<open>0.6000000000000001\<close>. The sum of the three durations is
  a number that is no float; and added as floats from the last task to the first, they
  give the float \<^verbatim>\<open>0.6\<close>.
\<close>

theorem workload_exact_sum_counterexample:
  "admissible init_database
     [AddEmployee ''E1'',
      AddTask 10 ''TASK_001'' ''a'' (double_round (1 / 10)) ''E1'',
      AddTask 20 ''TASK_002'' ''b'' (double_round (2 / 10)) ''E1'',
      AddTask 30 ''TASK_003'' ''c'' (double_round (3 / 10)) ''E1'']
   \<and> employees (run init_database
     [AddEmployee ''E1'',
      AddTask 10 ''TASK_001'' ''a'' (double_round (1 / 10)) ''E1'',
      AddTask 20 ''TASK_002'' ''b'' (double_round (2 / 10)) ''E1'',
      AddTask 30 ''TASK_003'' ''c'' (double_round (3 / 10)) ''E1''])
     = [\<lparr>emp_id = ''E1'',
         current_workload = 5404319552844596 / 9007199254740992,
         next_free_time = 5404319552844596 / 9007199254740992\<rparr>]
   \<and> sum_list (map duration (filter (\<lambda>t. assigned_to t = ''E1'') (tasks (run init_database
     [AddEmployee ''E1'',
      AddTask 10 ''TASK_001'' ''a'' (double_round (1 / 10)) ''E1'',
      AddTask 20 ''TASK_002'' ''b'' (double_round (2 / 10)) ''E1'',
      AddTask 30 ''TASK_003'' ''c'' (double_round (3 / 10)) ''E1'']))))
     = 21617278211378381 / 36028797018963968
   \<and> foldr double_add (map duration (filter (\<lambda>t. assigned_to t = ''E1'') (tasks
     (run init_database
     [AddEmployee ''E1'',
      AddTask 10 ''TASK_001'' ''a'' (double_round (1 / 10)) ''E1'',
      AddTask 20 ''TASK_002'' ''b'' (double_round (2 / 10)) ''E1'',
      AddTask 30 ''TASK_003'' ''c'' (double_round (3 / 10)) ''E1''])))) 0
     = 5404319552844595 / 9007199254740992
   \<and> \<not> workload_is_exact_sum (run init_database
     [AddEmployee ''E1'',
      AddTask 10 ''TASK_001'' ''a'' (double_round (1 / 10)) ''E1'',
      AddTask 20 ''TASK_002'' ''b'' (double_round (2 / 10)) ''E1'',
      AddTask 30 ''TASK_003'' ''c'' (double_round (3 / 10)) ''E1''])"
proof -
  let ?ops = "[AddEmployee ''E1'',
      AddTask 10 ''TASK_001'' ''a'' (double_round (1 / 10)) ''E1'',
      AddTask 20 ''TASK_002'' ''b'' (double_round (2 / 10)) ''E1'',
      AddTask 30 ''TASK_003'' ''c'' (double_round (3 / 10)) ''E1'']"
  have adm: "admissible init_database ?ops"
    by (simp add: init_database_def add_employee_def add_task_def)
  have db: "run init_database ?ops =
      \<lparr>employees = [\<lparr>emp_id = ''E1'',
          current_workload = 5404319552844596 / 9007199254740992,
          next_free_time = 5404319552844596 / 9007199254740992\<rparr>],
       tasks = [\<lparr>task_id = ''TASK_001'', description = ''a'',
                 duration = 3602879701896397 / 36028797018963968,
                 assigned_to = ''E1'', created_at = 10\<rparr>,
                \<lparr>task_id = ''TASK_002'', description = ''b'',
                 duration = 3602879701896397 / 18014398509481984,
                 assigned_to = ''E1'', created_at = 20\<rparr>,
                \<lparr>task_id = ''TASK_003'', description = ''c'',
                 duration = 5404319552844595 / 18014398509481984,
                 assigned_to = ''E1'', created_at = 30\<rparr>],
       write_locked = False\<rparr>"
    unfolding double_round_tenths
    by (simp add: run_def init_database_def add_employee_def add_task_def double_add_tenths)
  have emps: "employees (run init_database ?ops)
     = [\<lparr>emp_id = ''E1'',
         current_workload = 5404319552844596 / 9007199254740992,
         next_free_time = 5404319552844596 / 9007199254740992\<rparr>]"
    unfolding db by simp
  have exact: "sum_list (map duration (filter (\<lambda>t. assigned_to t = ''E1'')
        (tasks (run init_database ?ops))))
     = 21617278211378381 / 36028797018963968"
    unfolding db by simp
  have b1: "double_add (5404319552844595 / 18014398509481984) 0
      = 5404319552844595 / 18014398509481984"
    by (simp add: double_defs)
  have b2: "double_add (3602879701896397 / 18014398509481984)
        (5404319552844595 / 18014398509481984) = 1 / 2"
    by (simp add: double_defs)
  have b3: "double_add (3602879701896397 / 36028797018963968) (1 / 2)
      = 5404319552844595 / 9007199254740992"
    by (simp add: double_defs)
  have rsum: "foldr double_add (map duration (filter (\<lambda>t. assigned_to t = ''E1'')
        (tasks (run init_database ?ops)))) 0
     = 5404319552844595 / 9007199254740992"
    unfolding db by (simp add: b1 b2 b3)
  have no: "\<not> workload_is_exact_sum (run init_database ?ops)"
    unfolding db by (simp add: workload_is_exact_sum_def)
  from adm emps exact rsum no show ?thesis by blast
qed

text \<open>
  C1, amended. Start from the empty store and make any sequence of calls of
  \<^verbatim>\<open>add_employee\<close>, \<^verbatim>\<open>add_task\<close>, \<^verbatim>\<open>remove_employee\<close> and \<^verbatim>\<open>reset_all_data\<close>, with collections
  of left-open connections anywhere between them, in which every \<^verbatim>\<open>add_task\<close> names an
  employee who is in the table at that moment. Then the \<open>current_workload\<close> of every
  employee is what adding the durations of the tasks assigned to that employee gives
  when they are added as floats, from 0, in the order in which the tasks were
  inserted. (A call that raises is allowed in the sequence and changes no row.)
\<close>

theorem workload_equals_assigned_hours:
  assumes "admissible init_database ops"
  shows "\<forall>r \<in> set (employees (run init_database ops)).
           current_workload r =
             foldl double_add 0 (map duration
               (filter (\<lambda>t. assigned_to t = emp_id r) (tasks (run init_database ops))))"
  using run_store_invariant [OF init_database_store_invariant assms]
  by (simp add: store_invariant_def workload_consistent_def assigned_hours_def)

text \<open>
  The theorem at a sequence that uses every kind of step: E1 and E2 are added; E1 gets
  tasks of 0.1 and 0.2 hours; a task for E2 with the task id of the first raises, and
  so does the next call, until the left-open connection is collected; E2 gets a task
  of 2 hours and E1 one of 0.3 hours; E2 is removed and added again; E1 is added a
  second time. E1 ends with the float \<^verbatim>\<open>0.6000000000000001\<close>, E2 with 0.
\<close>

theorem workload_equals_assigned_hours_witness:
  "admissible init_database
     [AddEmployee ''E1'', AddEmployee ''E2'',
      AddTask 10 ''TASK_001'' ''a'' (double_round (1 / 10)) ''E1'',
      AddTask 20 ''TASK_002'' ''b'' (double_round (2 / 10)) ''E1'',
      AddTask 30 ''TASK_001'' ''c'' 2 ''E2'', AddTask 40 ''TASK_003'' ''c'' 2 ''E2'',
      CollectGarbage, AddTask 50 ''TASK_003'' ''c'' 2 ''E2'',
      AddTask 60 ''TASK_004'' ''d'' (double_round (3 / 10)) ''E1'',
      RemoveEmployee ''E2'', AddEmployee ''E2'', AddEmployee ''E1'']
   \<and> employees (run init_database
     [AddEmployee ''E1'', AddEmployee ''E2'',
      AddTask 10 ''TASK_001'' ''a'' (double_round (1 / 10)) ''E1'',
      AddTask 20 ''TASK_002'' ''b'' (double_round (2 / 10)) ''E1'',
      AddTask 30 ''TASK_001'' ''c'' 2 ''E2'', AddTask 40 ''TASK_003'' ''c'' 2 ''E2'',
      CollectGarbage, AddTask 50 ''TASK_003'' ''c'' 2 ''E2'',
      AddTask 60 ''TASK_004'' ''d'' (double_round (3 / 10)) ''E1'',
      RemoveEmployee ''E2'', AddEmployee ''E2'', AddEmployee ''E1''])
     = [\<lparr>emp_id = ''E1'',
         current_workload = 5404319552844596 / 9007199254740992,
         next_free_time = 5404319552844596 / 9007199254740992\<rparr>,
        \<lparr>emp_id = ''E2'', current_workload = 0, next_free_time = 0\<rparr>]
   \<and> foldl double_add 0 (map duration
        (filter (\<lambda>t. assigned_to t = ''E1'') (tasks (run init_database
     [AddEmployee ''E1'', AddEmployee ''E2'',
      AddTask 10 ''TASK_001'' ''a'' (double_round (1 / 10)) ''E1'',
      AddTask 20 ''TASK_002'' ''b'' (double_round (2 / 10)) ''E1'',
      AddTask 30 ''TASK_001'' ''c'' 2 ''E2'', AddTask 40 ''TASK_003'' ''c'' 2 ''E2'',
      CollectGarbage, AddTask 50 ''TASK_003'' ''c'' 2 ''E2'',
      AddTask 60 ''TASK_004'' ''d'' (double_round (3 / 10)) ''E1'',
      RemoveEmployee ''E2'', AddEmployee ''E2'', AddEmployee ''E1''])))) = 5404319552844596 / 9007199254740992
   \<and> foldl double_add 0 (map duration
        (filter (\<lambda>t. assigned_to t = ''E2'') (tasks (run init_database
     [AddEmployee ''E1'', AddEmployee ''E2'',
      AddTask 10 ''TASK_001'' ''a'' (double_round (1 / 10)) ''E1'',
      AddTask 20 ''TASK_002'' ''b'' (double_round (2 / 10)) ''E1'',
      AddTask 30 ''TASK_001'' ''c'' 2 ''E2'', AddTask 40 ''TASK_003'' ''c'' 2 ''E2'',
      CollectGarbage, AddTask 50 ''TASK_003'' ''c'' 2 ''E2'',
      AddTask 60 ''TASK_004'' ''d'' (double_round (3 / 10)) ''E1'',
      RemoveEmployee ''E2'', AddEmployee ''E2'', AddEmployee ''E1''])))) = 0"
proof -
  let ?ops = "[AddEmployee ''E1'', AddEmployee ''E2'',
      AddTask 10 ''TASK_001'' ''a'' (double_round (1 / 10)) ''E1'',
      AddTask 20 ''TASK_002'' ''b'' (double_round (2 / 10)) ''E1'',
      AddTask 30 ''TASK_001'' ''c'' 2 ''E2'', AddTask 40 ''TASK_003'' ''c'' 2 ''E2'',
      CollectGarbage, AddTask 50 ''TASK_003'' ''c'' 2 ''E2'',
      AddTask 60 ''TASK_004'' ''d'' (double_round (3 / 10)) ''E1'',
      RemoveEmployee ''E2'', AddEmployee ''E2'', AddEmployee ''E1'']"
  have adm: "admissible init_database ?ops"
    by (simp add: init_database_def add_employee_def add_task_def remove_employee_def
        collect_garbage_def)
  have two: "double_add 0 2 = 2" by (simp add: double_defs)
  have emps: "employees (run init_database ?ops)
     = [\<lparr>emp_id = ''E1'',
         current_workload = 5404319552844596 / 9007199254740992,
         next_free_time = 5404319552844596 / 9007199254740992\<rparr>,
        \<lparr>emp_id = ''E2'', current_workload = 0, next_free_time = 0\<rparr>]"
    unfolding double_round_tenths
    by (simp add: run_def init_database_def add_employee_def add_task_def remove_employee_def
        collect_garbage_def double_add_tenths two)
  have all: "\<forall>r \<in> set (employees (run init_database ?ops)).
      current_workload r = foldl double_add 0 (map duration
        (filter (\<lambda>t. assigned_to t = emp_id r) (tasks (run init_database ?ops))))"
    using adm by (rule workload_equals_assigned_hours)
  have "\<lparr>emp_id = ''E1'',
         current_workload = 5404319552844596 / 9007199254740992,
         next_free_time = 5404319552844596 / 9007199254740992\<rparr>
      \<in> set (employees (run init_database ?ops))"
    unfolding emps by simp
  from all [rule_format, OF this]
  have s1: "foldl double_add 0 (map duration
      (filter (\<lambda>t. assigned_to t = ''E1'') (tasks (run init_database ?ops))))
      = 5404319552844596 / 9007199254740992"
    by simp
  have "\<lparr>emp_id = ''E2'', current_workload = 0, next_free_time = 0\<rparr>
      \<in> set (employees (run init_database ?ops))"
    unfolding emps by simp
  from all [rule_format, OF this]
  have s2: "foldl double_add 0 (map duration
      (filter (\<lambda>t. assigned_to t = ''E2'') (tasks (run init_database ?ops)))) = 0"
    by simp
  from adm emps s1 s2 show ?thesis by blast
qed

end
